theory Spec2Isabelle
  imports Main "HOL-Library.Word"
begin

section \<open>Machine integers\<close>

text \<open>
  The C type \<open>int\<close> of the sources is a 32-bit two's complement value: \<open>+\<close>, \<open>-\<close> and
  \<open>*\<close> wrap around, \<open>sint\<close> reads the signed value that \<open>%d\<close> prints.
\<close>

type_synonym c_int = "32 word"

section \<open>Notmuch: the query window (mutt_notmuch.c)\<close>

text \<open>
  The configuration variables the window functions read and write. The stored search
  \<open>NmQueryWindowCurrentSearch\<close> is a \<open>char *\<close> that may be \<open>NULL\<close>.
\<close>

record nm_globals =
  NmQueryType :: "string option"
  NmQueryWindowDuration :: c_int
  NmQueryWindowCurrentPosition :: c_int
  NmQueryWindowTimebase :: string
  NmQueryWindowCurrentSearch :: "string option"

definition nm_query_window_forward :: "nm_globals \<Rightarrow> nm_globals" where
  "nm_query_window_forward g =
     (if NmQueryWindowCurrentPosition g \<noteq> 0
      then g\<lparr>NmQueryWindowCurrentPosition := NmQueryWindowCurrentPosition g - 1\<rparr>
      else g)"

definition nm_query_window_backward :: "nm_globals \<Rightarrow> nm_globals" where
  "nm_query_window_backward g =
     g\<lparr>NmQueryWindowCurrentPosition := NmQueryWindowCurrentPosition g + 1\<rparr>"

text \<open>
  \<open>query_window_reset\<close> stores 0 in \<open>nm_query_window_current_position\<close> through the
  configuration set.
\<close>

definition query_window_reset :: "nm_globals \<Rightarrow> nm_globals" where
  "query_window_reset g = g\<lparr>NmQueryWindowCurrentPosition := 0\<rparr>"

datatype window_op = Forward | Backward | Reset

fun window_step :: "nm_globals \<Rightarrow> window_op \<Rightarrow> nm_globals" where
  "window_step g Forward = nm_query_window_forward g"
| "window_step g Backward = nm_query_window_backward g"
| "window_step g Reset = query_window_reset g"

fun window_run :: "nm_globals \<Rightarrow> window_op list \<Rightarrow> nm_globals" where
  "window_run g [] = g"
| "window_run g (x # xs) = window_run (window_step g x) xs"

definition backward_calls :: "window_op list \<Rightarrow> nat" where
  "backward_calls ops = length (filter (\<lambda>x. x = Backward) ops)"

definition g0 :: nm_globals where
  "g0 = \<lparr>NmQueryType = Some ''messages'', NmQueryWindowDuration = 3,
         NmQueryWindowCurrentPosition = 0, NmQueryWindowTimebase = ''month'',
         NmQueryWindowCurrentSearch = None\<rparr>"

subsection \<open>Formatting\<close>

text \<open>
  \<open>snprintf\<close> with \<open>%d\<close> prints the signed decimal value of an \<open>int\<close>, with \<open>%s\<close>
  the string (glibc prints \<open>(null)\<close> for a \<open>NULL\<close> pointer), and keeps at most
  \<open>buflen - 1\<close> characters of the result.
\<close>

definition digit_char :: "nat \<Rightarrow> char" where
  "digit_char n = ''0123456789'' ! (n mod 10)"

fun show_nat :: "nat \<Rightarrow> string" where
  "show_nat n =
     (if n < 10 then [digit_char n] else show_nat (n div 10) @ [digit_char (n mod 10)])"

declare show_nat.simps [simp del]

definition show_int :: "int \<Rightarrow> string" where
  "show_int i = (if i < 0 then CHR ''-'' # show_nat (nat (- i)) else show_nat (nat i))"

definition fmt_d :: "c_int \<Rightarrow> string" where
  "fmt_d w = show_int (sint w)"

definition fmt_s :: "string option \<Rightarrow> string" where
  "fmt_s p = (case p of None \<Rightarrow> ''(null)'' | Some s \<Rightarrow> s)"

definition snprintf :: "nat \<Rightarrow> string \<Rightarrow> string" where
  "snprintf buflen s = take (buflen - 1) s"

subsection \<open>The windowed query\<close>

definition query_window_check_timebase :: "string \<Rightarrow> bool" where
  "query_window_check_timebase timebase =
     (timebase = ''hour'' \<or> timebase = ''day'' \<or> timebase = ''week'' \<or>
      timebase = ''month'' \<or> timebase = ''year'')"

text \<open>
  \<open>windowed_query_from_query query buf buflen\<close>: the result is \<open>Some buf\<close> when the
  function returns true and \<open>None\<close> when it returns false. \<open>beg\<close> and \<open>end\<close> are
  computed at their declarations, before any reset of the position.
\<close>

definition windowed_query_from_query ::
  "string \<Rightarrow> nat \<Rightarrow> nm_globals \<Rightarrow> string option \<times> nm_globals" where
  "windowed_query_from_query query buflen g =
     (let beg = NmQueryWindowDuration g * (NmQueryWindowCurrentPosition g + 1);
          end = NmQueryWindowDuration g * NmQueryWindowCurrentPosition g
      in if sint (NmQueryWindowDuration g) \<le> 0 then (None, query_window_reset g)
         else
           let g1 = (if NmQueryWindowCurrentSearch g = None \<or>
                        NmQueryWindowCurrentSearch g \<noteq> Some query
                     then query_window_reset g else g)
           in if \<not> query_window_check_timebase (NmQueryWindowTimebase g1) then (None, g1)
              else if end = 0
              then (Some (snprintf buflen
                      (''date:'' @ fmt_d beg @ NmQueryWindowTimebase g1 @ ''.. and '' @
                       fmt_s (NmQueryWindowCurrentSearch g1))), g1)
              else (Some (snprintf buflen
                      (''date:'' @ fmt_d beg @ NmQueryWindowTimebase g1 @ ''..'' @
                       fmt_d end @ NmQueryWindowTimebase g1 @ '' and '' @
                       fmt_s (NmQueryWindowCurrentSearch g1))), g1))"

subsection \<open>The search string of a virtual folder\<close>

datatype NmQueryType = NM_QUERY_TYPE_MESGS | NM_QUERY_TYPE_THREADS

text \<open>
  \<open>db_url.query_strings\<close> is the list of the URL's \<open>name=value\<close> items; either part
  may be \<open>NULL\<close>.
\<close>

record NmMboxData =
  db_query :: "string option"
  db_limit :: c_int
  query_type :: NmQueryType
  query_strings :: "(string option \<times> string option) list"

text \<open>\<open>mutt_str_strcmp\<close> reads a \<open>NULL\<close> argument as the empty string.\<close>

definition string_to_query_type :: "string option \<Rightarrow> NmQueryType" where
  "string_to_query_type str =
     (if fmt_s (case str of None \<Rightarrow> Some [] | Some s \<Rightarrow> Some s) = ''threads''
      then NM_QUERY_TYPE_THREADS
      else NM_QUERY_TYPE_MESGS)"

text \<open>
  Modelled from the spec: \<open>mutt_str_strdup\<close> (mutt/string.c, not under src/) gives a copy
  of the query text; it gives \<open>NULL\<close> for the empty string, which is why its callers
  test the result against \<open>NULL\<close>.
\<close>

definition mutt_str_strdup :: "string \<Rightarrow> string option" where
  "mutt_str_strdup s = (if s = [] then None else Some s)"

text \<open>\<open>strstr haystack needle \<noteq> NULL\<close>.\<close>

fun strstr :: "string \<Rightarrow> string \<Rightarrow> bool" where
  "strstr [] needle = (needle = [])"
| "strstr (c # cs) needle = (take (length needle) (c # cs) = needle \<or> strstr cs needle)"

text \<open>
  One item of the \<open>STAILQ_FOREACH\<close> loop of \<open>get_query_string\<close>. The number parser
  \<open>mutt_str_atoi\<close> is not under src/ and is a parameter: the value it stores.
\<close>

fun url_item :: "(string \<Rightarrow> c_int) \<Rightarrow> NmMboxData \<Rightarrow> string option \<times> string option \<Rightarrow> NmMboxData" where
  "url_item atoi m (Some name, Some v) =
     (if name = ''limit'' then m\<lparr>db_limit := atoi v\<rparr>
      else if name = ''type'' then m\<lparr>query_type := string_to_query_type (Some v)\<rparr>
      else if name = ''query'' then m\<lparr>db_query := mutt_str_strdup v\<rparr>
      else m)"
| "url_item atoi m _ = m"

text \<open>
  \<open>get_query_string mdata window\<close> with the size \<open>LONG_STRING\<close> of its buffer as a
  parameter. The result is the returned pointer, the mailbox data and the globals.
\<close>

definition get_query_string ::
  "(string \<Rightarrow> c_int) \<Rightarrow> nat \<Rightarrow> NmMboxData option \<Rightarrow> bool \<Rightarrow> nm_globals
     \<Rightarrow> string option \<times> NmMboxData option \<times> nm_globals" where
  "get_query_string atoi long_string mdata window g =
     (case mdata of
        None \<Rightarrow> (None, None, g)
      | Some m \<Rightarrow>
          if db_query m \<noteq> None then (db_query m, Some m, g)
          else
            let m1 = m\<lparr>query_type := string_to_query_type (NmQueryType g)\<rparr>;
                m2 = foldl (url_item atoi) m1 (query_strings m1)
            in case db_query m2 of
                 None \<Rightarrow> (None, Some m2, g)
               | Some q \<Rightarrow>
                   if window then
                     let g1 = g\<lparr>NmQueryWindowCurrentSearch := mutt_str_strdup q\<rparr>
                     in if \<not> strstr q ''date:'' then
                          (case windowed_query_from_query q long_string g1 of
                             (Some buf, g2) \<Rightarrow>
                               (mutt_str_strdup buf, Some (m2\<lparr>db_query := mutt_str_strdup buf\<rparr>), g2)
                           | (None, g2) \<Rightarrow> (Some q, Some m2, g2))
                        else (Some q, Some m2, g1)
                   else (Some q, Some m2, g))"


section \<open>Flat-file mailboxes (mbox.c)\<close>

subsection \<open>Data\<close>

datatype MailboxType =
  MUTT_MAILBOX_ERROR | MUTT_UNKNOWN | MUTT_MBOX | MUTT_MMDF | MUTT_MH | MUTT_MAILDIR |
  MUTT_NNTP | MUTT_IMAP | MUTT_NOTMUCH | MUTT_POP | MUTT_COMPRESSED

text \<open>
  The return codes of the mailbox operations: \<open>0\<close>, \<open>-1\<close>, \<open>-2\<close> and the positive
  codes of a check.
\<close>

datatype status = RC_OK | RC_ERROR | RC_ABORTED | MUTT_NEW_MAIL | MUTT_LOCKED | MUTT_REOPENED

text \<open>
  \<open>struct Header\<close> with the fields of its \<open>content\<close> body that the mailbox code reads
  and writes: \<open>content->hdr_offset\<close>, \<open>content->offset\<close> and \<open>content->length\<close>.
  \<open>env\<close> stands for the parsed envelope, which only the header collaborators look into.
\<close>

record Header =
  offset :: int
  hdr_offset :: int
  content_offset :: int
  content_length :: int
  lines :: int
  index :: int
  deleted :: bool
  changed :: bool
  old :: bool
  read :: bool
  flagged :: bool
  replied :: bool
  purge :: bool
  tagged :: bool
  attach_del :: bool
  env :: string

type_synonym timespec = "int \<times> int"

record stat =
  st_size :: int
  st_mtime :: timespec
  st_atime :: timespec

text \<open>
  \<open>struct Context\<close> and its \<open>mailbox\<close>: \<open>hdrs\<close> holds the \<open>msg_count\<close> records of the
  Header Store, \<open>fp\<close> is the position of the open stream (\<open>None\<close> for \<open>NULL\<close>).
\<close>

record Context =
  hdrs :: "Header list"
  mailbox_size :: int
  mtime :: timespec
  atime :: timespec
  magic :: MailboxType
  fp :: "nat option"
  locked :: bool
  readonly :: bool
  mailbox_changed :: bool
  append :: bool
  quiet :: bool

text \<open>
  The collaborators that are not part of mbox.c, and the buffer sizes of its headers:
  the test for a \<open>From \<close> separator line, the header parser (for the file and a position:
  the number of bytes of the header block, and the record with the declared length,
  line count, flags and envelope), and the strict header comparison.
\<close>

record collab =
  is_from :: "string \<Rightarrow> bool"
  mutt_rfc822_read_header :: "string \<Rightarrow> nat \<Rightarrow> nat \<times> Header"
  mutt_header_cmp_strict :: "Header \<Rightarrow> Header \<Rightarrow> bool"
  HUGE_STRING :: nat
  LONG_STRING :: nat

subsection \<open>Streams\<close>

text \<open>
  A file is its bytes; a stream is a position in it. \<open>fgets n\<close> reads at most \<open>n - 1\<close>
  bytes up to and including a newline and gives \<open>None\<close> at the end of the file; the
  string functions of C see a buffer up to its first NUL byte.
\<close>

fun take_line :: "string \<Rightarrow> string" where
  "take_line [] = []"
| "take_line (c # cs) = (if c = CHR 0x0A then [c] else c # take_line cs)"

definition fgets :: "nat \<Rightarrow> string \<Rightarrow> nat \<Rightarrow> (string \<times> nat) option" where
  "fgets n f pos =
     (let line = take_line (take (n - 1) (drop pos f))
      in if line = [] then None else Some (line, pos + length line))"

definition c_str :: "string \<Rightarrow> string" where
  "c_str buf = takeWhile (\<lambda>c. c \<noteq> CHR 0x00) buf"

definition MMDF_SEP :: string where
  "MMDF_SEP = [CHR 0x01, CHR 0x01, CHR 0x01, CHR 0x01, CHR 0x0A]"

text \<open>
  The process-wide flag \<open>SigInt\<close> is set by a signal handler. A call sees it through
  its reads of the variable: with \<open>Some k\<close> the flag is set from the \<open>k\<close>-th read of the
  call on (\<open>Some 0\<close>: it was set before the call), with \<open>None\<close> it stays clear.
\<close>

definition SigInt :: "nat option \<Rightarrow> nat \<Rightarrow> bool" where
  "SigInt arrival n = (case arrival of None \<Rightarrow> False | Some k \<Rightarrow> k \<le> n)"

text \<open>
  What a call finds outside the program: the bytes of the mailbox file, the result of
  \<open>stat\<close> on its path (\<open>None\<close> when it fails), whether \<open>access (W_OK)\<close>, \<open>fopen\<close>
  and \<open>mutt_file_lock\<close> succeed, and the arrival of the interrupt.
\<close>

record world =
  mailbox_file :: string
  stat_res :: "stat option"
  access_w_ok :: bool
  fopen_ok :: bool
  lock_ok :: bool
  sigint_arrival :: "nat option"

subsection \<open>The mbox parser\<close>

text \<open>
  Closing the record of the previous message: an unknown length becomes the distance
  from the body to the byte before \<open>endpos\<close> (never negative), an unknown line count
  the number of lines scanned less the blank line before the separator.
\<close>

definition close_message :: "int \<Rightarrow> int \<Rightarrow> Header \<Rightarrow> Header" where
  "close_message endpos nlines h =
     (let h1 = (if content_length h < 0
                then h\<lparr>content_length := max 0 (endpos - content_offset h - 1)\<rparr>
                else h)
      in if lines h1 = 0 then h1\<lparr>lines := (if nlines \<noteq> 0 then nlines - 1 else 0)\<rparr> else h1)"

definition close_last :: "int \<Rightarrow> int \<Rightarrow> Header list \<Rightarrow> Header list" where
  "close_last endpos nlines hs =
     (if hs = [] then hs else butlast hs @ [close_message endpos nlines (last hs)])"

definition count_newlines :: "string \<Rightarrow> int" where
  "count_newlines s = int (length (filter (\<lambda>c. c = CHR 0x0A) s))"

text \<open>
  The body of the \<open>is_from\<close> branch from \<open>mutt_header_new\<close> on, for the separator line at
  \<open>loc\<close> with the stream at \<open>pos\<close> behind it: the new record and the position of the
  stream afterwards. \<open>sz\<close> is \<open>ctx->mailbox->size\<close>.
\<close>

definition mbox_new_message ::
  "collab \<Rightarrow> string \<Rightarrow> int \<Rightarrow> nat \<Rightarrow> nat \<Rightarrow> nat \<Rightarrow> Header \<times> nat" where
  "mbox_new_message c f sz loc pos msg_count =
     (let (consumed, h0) = mutt_rfc822_read_header c f pos;
          p1 = min (pos + consumed) (max pos (length f));
          h = h0\<lparr>offset := int loc, index := int msg_count, hdr_offset := int loc,
                 content_offset := int p1\<rparr>
      in if content_length h > 0 then
           let tmploc = (if content_length h < sz then int p1 + content_length h + 1 else - 1);
               (h1, p2) =
                 (if tmploc > 0 \<and> tmploc < sz then
                    (case fgets (HUGE_STRING c) f (nat tmploc) of
                       None \<Rightarrow> (h\<lparr>content_length := - 1\<rparr>, p1)
                     | Some (buf, p) \<Rightarrow>
                         if take 5 (c_str buf) \<noteq> ''From ''
                         then (h\<lparr>content_length := - 1\<rparr>, p1)
                         else (h, p))
                  else if tmploc \<noteq> sz then (h\<lparr>content_length := - 1\<rparr>, p1)
                  else (h, p1))
           in if content_length h1 \<noteq> - 1 then
                let cl = sint (word_of_int (content_length h1) :: c_int);
                    (h2, p3) =
                      (if lines h1 = 0
                       then (h1\<lparr>lines := count_newlines (take (nat cl) (drop p1 f))\<rparr>,
                             min (p1 + nat cl) (max p1 (length f)))
                       else (h1, p2))
                in (h2, if tmploc < 0 then p3 else nat tmploc)
              else (h1, p2)
         else (h, p1))"

record mbox_state =
  pos :: nat
  loc :: nat
  msgs :: "Header list"
  count :: nat
  nlines :: int
  reads :: nat

text \<open>
  One evaluation of the loop condition \<open>fgets (...) && SigInt != 1\<close> and, when it holds,
  of the loop body. The first component tells whether the loop goes on.
\<close>

definition mbox_step :: "collab \<Rightarrow> world \<Rightarrow> int \<Rightarrow> mbox_state \<Rightarrow> bool \<times> mbox_state" where
  "mbox_step c e sz s =
     (case fgets (HUGE_STRING c) (mailbox_file e) (pos s) of
        None \<Rightarrow> (False, s)
      | Some (buf, p) \<Rightarrow>
          if SigInt (sigint_arrival e) (reads s) then (False, s\<lparr>pos := p, reads := reads s + 1\<rparr>)
          else if is_from c (c_str buf) then
            let ms = (if count s > 0 then close_last (int (loc s)) (nlines s) (msgs s) else msgs s);
                (h, p') = mbox_new_message c (mailbox_file e) sz (loc s) p (length ms)
            in (True, \<lparr>pos = p', loc = p', msgs = ms @ [h], count = count s + 1, nlines = 0,
                       reads = reads s + 1\<rparr>)
          else (True, s\<lparr>pos := p, loc := p, nlines := nlines s + 1, reads := reads s + 1\<rparr>))"

lemma length_take_line: "length (take_line xs) \<le> length xs"
  by (induction xs) auto

lemma fgets_progress:
  assumes "fgets n f p = Some (l, q)"
  shows "p < q \<and> q \<le> length f \<and> p < length f"
proof -
  let ?line = "take_line (take (n - 1) (drop p f))"
  from assms have ne: "?line \<noteq> []" and q: "q = p + length ?line"
    by (auto simp: fgets_def Let_def split: if_splits)
  have "length ?line \<le> length (take (n - 1) (drop p f))" by (rule length_take_line)
  also have "\<dots> \<le> length f - p" by simp
  finally have le: "length ?line \<le> length f - p" .
  from ne have "0 < length ?line" by simp
  with le q show ?thesis by linarith
qed

lemma fgets_lt: "fgets n f t = Some (b, r) \<Longrightarrow> t < r"
  using fgets_progress by blast

lemma fgets_le: "fgets n f t = Some (b, r) \<Longrightarrow> t \<le> r"
  using fgets_progress by fastforce

lemma mbox_new_message_ge: "p0 \<le> snd (mbox_new_message c f sz l0 p0 k)"
proof -
  obtain consumed h0 where rh: "mutt_rfc822_read_header c f p0 = (consumed, h0)"
    by (cases "mutt_rfc822_read_header c f p0")
  define p1 where "p1 = min (p0 + consumed) (max p0 (length f))"
  have p1: "p0 \<le> p1" by (simp add: p1_def)
  show ?thesis
    using p1 unfolding mbox_new_message_def rh p1_def [symmetric] Let_def
    by (auto simp: Let_def split: option.splits prod.splits if_splits dest: fgets_le)
qed

lemma mbox_new_message_geD: "mbox_new_message c f sz l0 p0 k = (h, q) \<Longrightarrow> p0 \<le> q"
  using mbox_new_message_ge [of p0 c f sz l0 k] by simp

lemma mbox_step_progress:
  assumes "fst (mbox_step c e sz s)"
  shows "length (mailbox_file e) - pos (snd (mbox_step c e sz s)) < length (mailbox_file e) - pos s"
proof -
  from assms obtain buf p where fg: "fgets (HUGE_STRING c) (mailbox_file e) (pos s) = Some (buf, p)"
    by (auto simp: mbox_step_def split: option.splits)
  from fgets_progress [OF fg] have lt: "pos s < p" "pos s < length (mailbox_file e)" by simp_all
  have "p \<le> pos (snd (mbox_step c e sz s))"
    by (auto simp: mbox_step_def fg Let_def split: prod.splits if_splits
        dest: mbox_new_message_geD)
  with lt show ?thesis by linarith
qed

function mbox_loop :: "collab \<Rightarrow> world \<Rightarrow> int \<Rightarrow> mbox_state \<Rightarrow> mbox_state" where
  "mbox_loop c e sz s =
     (if fst (mbox_step c e sz s) then mbox_loop c e sz (snd (mbox_step c e sz s))
      else snd (mbox_step c e sz s))"
  by pat_completeness auto
termination
  by (relation "measure (\<lambda>(c, e, sz, s). length (mailbox_file e) - pos s)")
     (auto dest: mbox_step_progress)

declare mbox_loop.simps [simp del]

text \<open>
  \<open>mbox_parse_mailbox\<close>: the status, the context and the value of \<open>SigInt\<close> at the
  return. The stream must be open.
\<close>

definition mbox_start :: "nat \<Rightarrow> Header list \<Rightarrow> mbox_state" where
  "mbox_start start hs = \<lparr>pos = start, loc = start, msgs = hs, count = 0, nlines = 0, reads = 0\<rparr>"

definition mbox_parse_mailbox ::
  "collab \<Rightarrow> world \<Rightarrow> Context \<Rightarrow> status \<times> Context \<times> bool" where
  "mbox_parse_mailbox c e ctx =
     (case stat_res e of
        None \<Rightarrow> (RC_ERROR, ctx, SigInt (sigint_arrival e) 0)
      | Some sb \<Rightarrow>
          (case fp ctx of
             None \<Rightarrow> (RC_ERROR, ctx, SigInt (sigint_arrival e) 0)
           | Some start \<Rightarrow>
               let ctx1 = ctx\<lparr>mailbox_size := st_size sb, mtime := st_mtime sb,
                               atime := st_atime sb,
                               readonly := (if readonly ctx then True else \<not> access_w_ok e)\<rparr>;
                   s = mbox_loop c e (st_size sb) (mbox_start start (hdrs ctx1));
                   ms = (if count s > 0 then close_last (int (pos s)) (nlines s) (msgs s)
                         else msgs s);
                   ctx2 = ctx1\<lparr>hdrs := ms, fp := Some (pos s)\<rparr>
               in if SigInt (sigint_arrival e) (reads s) then (RC_ABORTED, ctx2, False)
                  else (RC_OK, ctx2, False)))"

subsection \<open>The MMDF parser\<close>

text \<open>
  The \<open>do \<dots> while\<close> scan for the closing separator, entered with \<open>lines = -1\<close>:
  the position \<open>loc\<close> before the last line read, the line count and the position of the
  stream.
\<close>

function mmdf_scan :: "nat \<Rightarrow> string \<Rightarrow> nat \<Rightarrow> int \<Rightarrow> nat \<times> int \<times> nat" where
  "mmdf_scan n f p k =
     (case fgets n f p of
        None \<Rightarrow> (p, k, p)
      | Some (buf, q) \<Rightarrow>
          if c_str buf \<noteq> MMDF_SEP then mmdf_scan n f q (k + 1) else (p, k + 1, q))"
  by pat_completeness auto
termination
  by (relation "measure (\<lambda>(n, f, p, k). length f - p)")
     (auto dest!: fgets_progress)

declare mmdf_scan.simps [simp del]

datatype 'a loop_result = Continue 'a | Break 'a | Return_Error 'a

record mmdf_state =
  mpos :: nat
  mmsgs :: "Header list"
  mcount :: nat
  mreads :: nat

text \<open>
  The message between two separators, for the stream at \<open>p\<close> behind the opening
  separator; \<open>None\<close> is the unexpected end of the file after the separator.
\<close>

definition mmdf_new_message ::
  "collab \<Rightarrow> string \<Rightarrow> int \<Rightarrow> nat \<Rightarrow> nat \<Rightarrow> (Header \<times> nat) option" where
  "mmdf_new_message c f sz p msg_count =
     (case fgets (HUGE_STRING c - 1) f p of
        None \<Rightarrow> None
      | Some (buf, p2) \<Rightarrow>
          let p3 = (if \<not> is_from c (c_str buf) then p else p2);
              (consumed, h0) = mutt_rfc822_read_header c f p3;
              p4 = min (p3 + consumed) (max p3 (length f));
              h = h0\<lparr>offset := int p, index := int msg_count, hdr_offset := int p,
                     content_offset := int p4\<rparr>;
              tmploc = int p4 + content_length h;
              (h1, p5) =
                (if content_length h > 0 \<and> lines h > 0 then
                   if tmploc > 0 \<and> tmploc < sz then
                     (case fgets (HUGE_STRING c - 1) f (nat tmploc) of
                        None \<Rightarrow> (h\<lparr>content_length := - 1\<rparr>, p4)
                      | Some (b, q) \<Rightarrow>
                          if c_str b \<noteq> MMDF_SEP then (h\<lparr>content_length := - 1\<rparr>, p4)
                          else (h, q))
                   else (h\<lparr>content_length := - 1\<rparr>, p4)
                 else (h\<lparr>content_length := - 1\<rparr>, p4))
          in if content_length h1 < 0 then
               let (l, k, q) = mmdf_scan (HUGE_STRING c - 1) f p5 (- 1)
               in Some (h1\<lparr>lines := k, content_length := int l - content_offset h1\<rparr>, q)
             else Some (h1, p5))"

definition mmdf_step :: "collab \<Rightarrow> world \<Rightarrow> int \<Rightarrow> mmdf_state \<Rightarrow> mmdf_state loop_result" where
  "mmdf_step c e sz s =
     (case fgets (HUGE_STRING c - 1) (mailbox_file e) (mpos s) of
        None \<Rightarrow> Break s
      | Some (buf, p) \<Rightarrow>
          if SigInt (sigint_arrival e) (mreads s)
          then Break (s\<lparr>mpos := p, mreads := mreads s + 1\<rparr>)
          else if c_str buf = MMDF_SEP then
            (case mmdf_new_message c (mailbox_file e) sz p (length (mmsgs s)) of
               None \<Rightarrow> Break (s\<lparr>mpos := p, mcount := mcount s + 1, mreads := mreads s + 1\<rparr>)
             | Some (h, q) \<Rightarrow>
                 Continue \<lparr>mpos = q, mmsgs = mmsgs s @ [h], mcount = mcount s + 1,
                           mreads = mreads s + 1\<rparr>)
          else Return_Error (s\<lparr>mpos := p, mreads := mreads s + 1\<rparr>))"

lemma mmdf_scan_ge: "mmdf_scan n f p k = (l, j, q) \<Longrightarrow> p \<le> q"
proof (induction n f p k rule: mmdf_scan.induct)
  case (1 n f p k)
  show ?case
  proof (cases "fgets n f p")
    case None
    with "1.prems" show ?thesis by (simp add: mmdf_scan.simps)
  next
    case (Some a)
    obtain buf q' where a: "a = (buf, q')" by (cases a)
    from fgets_progress Some a have lt: "p < q'" by blast
    show ?thesis
    proof (cases "c_str buf \<noteq> MMDF_SEP")
      case True
      with "1.prems" Some a have "mmdf_scan n f q' (k + 1) = (l, j, q)"
        by (simp add: mmdf_scan.simps)
      from "1.IH" [OF Some a [symmetric] True this] lt show ?thesis by simp
    next
      case False
      with "1.prems" Some a lt show ?thesis by (simp add: mmdf_scan.simps)
    qed
  qed
qed

lemma mmdf_new_message_ge:
  assumes "mmdf_new_message c f sz p k = Some (h, q)"
  shows "p \<le> q"
proof -
  from assms obtain buf p2 where fg: "fgets (HUGE_STRING c - 1) f p = Some (buf, p2)"
    by (auto simp: mmdf_new_message_def split: option.splits)
  from fgets_progress [OF fg] have p2: "p < p2" by simp
  define p3 where "p3 = (if \<not> is_from c (c_str buf) then p else p2)"
  have p3: "p \<le> p3" using p2 by (simp add: p3_def)
  obtain consumed h0 where rh: "mutt_rfc822_read_header c f p3 = (consumed, h0)"
    by (cases "mutt_rfc822_read_header c f p3")
  define p4 where "p4 = min (p3 + consumed) (max p3 (length f))"
  have p4: "p \<le> p4" using p3 by (simp add: p4_def)
  from assms p4 show ?thesis
    unfolding mmdf_new_message_def fg option.case prod.case Let_def
      p3_def [symmetric] rh p4_def [symmetric]
    by (auto split: option.splits prod.splits if_splits dest: fgets_le mmdf_scan_ge)
qed

lemma mmdf_step_progress:
  assumes "mmdf_step c e sz s = Continue s'"
  shows "length (mailbox_file e) - mpos s' < length (mailbox_file e) - mpos s"
proof -
  from assms obtain buf p where fg: "fgets (HUGE_STRING c - 1) (mailbox_file e) (mpos s) = Some (buf, p)"
    by (auto simp: mmdf_step_def split: option.splits)
  from fgets_progress [OF fg] have lt: "mpos s < p" "mpos s < length (mailbox_file e)" by simp_all
  from assms have "p \<le> mpos s'"
    unfolding mmdf_step_def fg option.case prod.case
    by (auto split: option.splits if_splits dest: mmdf_new_message_ge)
  with lt show ?thesis by linarith
qed

function mmdf_loop :: "collab \<Rightarrow> world \<Rightarrow> int \<Rightarrow> mmdf_state \<Rightarrow> mmdf_state loop_result" where
  "mmdf_loop c e sz s =
     (case mmdf_step c e sz s of
        Continue s' \<Rightarrow> mmdf_loop c e sz s'
      | Break s' \<Rightarrow> Break s'
      | Return_Error s' \<Rightarrow> Return_Error s')"
  by pat_completeness auto
termination
  by (relation "measure (\<lambda>(c, e, sz, s). length (mailbox_file e) - mpos s)")
     (auto dest: mmdf_step_progress)

declare mmdf_loop.simps [simp del]

definition mmdf_start :: "nat \<Rightarrow> Header list \<Rightarrow> mmdf_state" where
  "mmdf_start start hs = \<lparr>mpos = start, mmsgs = hs, mcount = 0, mreads = 0\<rparr>"



definition mmdf_parse_mailbox ::
  "collab \<Rightarrow> world \<Rightarrow> Context \<Rightarrow> status \<times> Context \<times> bool" where
  "mmdf_parse_mailbox c e ctx =
     (case stat_res e of
        None \<Rightarrow> (RC_ERROR, ctx, SigInt (sigint_arrival e) 0)
      | Some sb \<Rightarrow>
          (case fp ctx of
             None \<Rightarrow> (RC_ERROR, ctx, SigInt (sigint_arrival e) 0)
           | Some start \<Rightarrow>
               let ctx1 = ctx\<lparr>atime := st_atime sb, mtime := st_mtime sb,
                               mailbox_size := st_size sb\<rparr>
               in (case mmdf_loop c e (st_size sb) (mmdf_start start (hdrs ctx1)) of
                     Return_Error s \<Rightarrow>
                       (RC_ERROR, ctx1\<lparr>hdrs := mmsgs s, fp := Some (mpos s)\<rparr>,
                        SigInt (sigint_arrival e) (mreads s))
                   | Break s \<Rightarrow>
                       let ctx2 = ctx1\<lparr>hdrs := mmsgs s, fp := Some (mpos s)\<rparr>
                       in if SigInt (sigint_arrival e) (mreads s) then (RC_ABORTED, ctx2, False)
                          else (RC_OK, ctx2, False)
                   | Continue s \<Rightarrow> (RC_OK, ctx1\<lparr>hdrs := mmsgs s, fp := Some (mpos s)\<rparr>, False))))"

subsection \<open>A small instance of the collaborators\<close>

text \<open>
  To run the parsers on concrete mailboxes: a separator test that accepts every line
  starting with \<open>From \<close>, and a header reader that takes the lines up to and including
  the first empty line and reads the fields \<open>Content-Length\<close>, \<open>Lines\<close> and
  \<open>Message-ID\<close>. A record starts as \<open>mutt_header_new\<close> leaves it, with the length
  unknown (\<open>-1\<close>).
\<close>

definition new_header :: Header where
  "new_header = \<lparr>offset = 0, hdr_offset = 0, content_offset = 0, content_length = - 1,
     lines = 0, index = 0, deleted = False, changed = False, old = False, read = False,
     flagged = False, replied = False, purge = False, tagged = False, attach_del = False,
     env = []\<rparr>"

fun header_block :: "string \<Rightarrow> string \<Rightarrow> string list" where
  "header_block [] cur = (if cur = [] then [] else [rev cur])"
| "header_block (ch # cs) cur =
     (if ch = CHR 0x0A
      then (if cur = [] then [[ch]] else rev (ch # cur) # header_block cs [])
      else header_block cs (ch # cur))"

fun digits_val :: "string \<Rightarrow> nat \<Rightarrow> nat" where
  "digits_val [] acc = acc"
| "digits_val (ch # cs) acc =
     (if (48::nat) \<le> of_char ch \<and> of_char ch \<le> (57::nat)
      then digits_val cs (acc * 10 + (of_char ch - 48)) else acc)"

definition header_field :: "string \<Rightarrow> string list \<Rightarrow> string option" where
  "header_field name ls =
     (case filter (\<lambda>l. take (length name) l = name) ls of
        [] \<Rightarrow> None
      | l # _ \<Rightarrow> Some (drop (length name) l))"

definition demo_read_header :: "string \<Rightarrow> nat \<Rightarrow> nat \<times> Header" where
  "demo_read_header f p =
     (let ls = header_block (drop p f) []
      in (length (concat ls),
          new_header\<lparr>
            content_length := (case header_field ''Content-Length: '' ls of
                                 None \<Rightarrow> - 1 | Some v \<Rightarrow> int (digits_val v 0)),
            lines := (case header_field ''Lines: '' ls of
                        None \<Rightarrow> 0 | Some v \<Rightarrow> int (digits_val v 0)),
            env := (case header_field ''Message-ID: '' ls of None \<Rightarrow> [] | Some v \<Rightarrow> v)\<rparr>))"

definition demo :: collab where
  "demo = \<lparr>is_from = (\<lambda>buf. take 5 buf = ''From ''),
           mutt_rfc822_read_header = demo_read_header,
           mutt_header_cmp_strict = (\<lambda>a b. env a = env b),
           HUGE_STRING = 8192, LONG_STRING = 1024\<rparr>"

definition ctx0 :: Context where
  "ctx0 = \<lparr>hdrs = [], mailbox_size = 0, mtime = (0, 0), atime = (0, 0), magic = MUTT_MBOX,
           fp = Some 0, locked = False, readonly = False, mailbox_changed = False,
           append = False, quiet = False\<rparr>"

definition env_of :: "string \<Rightarrow> nat option \<Rightarrow> world" where
  "env_of f arrival =
     \<lparr>mailbox_file = f,
      stat_res = Some \<lparr>st_size = int (length f), st_mtime = (1, 0), st_atime = (1, 0)\<rparr>,
      access_w_ok = True, fopen_ok = True, lock_ok = True, sigint_arrival = arrival\<rparr>"

definition mbox1 :: string where
  "mbox1 = ''From a\<newline>Message-ID: 1\<newline>\<newline>one\<newline>two\<newline>three\<newline>\<newline>From b\<newline>Message-ID: 2\<newline>Content-Length: 4\<newline>\<newline>xyz\<newline>\<newline>''"

text \<open>Sample mailboxes and worlds for the instance above.\<close>

definition mmdf1 :: string where
  "mmdf1 = MMDF_SEP @ ''From a\<newline>Message-ID: 1\<newline>\<newline>x\<newline>'' @ MMDF_SEP @
           MMDF_SEP @ ''From b\<newline>Message-ID: 2\<newline>\<newline>y\<newline>'' @ MMDF_SEP"

definition mbox2 :: string where
  "mbox2 = ''From a\<newline>Lines: 7\<newline>Content-Length: 9\<newline>\<newline>x\<newline>\<newline>From b\<newline>\<newline>y\<newline>''"

definition w_nolock :: world where
  "w_nolock = (env_of mbox1 None)\<lparr>lock_ok := False\<rparr>"


definition ctx_open :: Context where
  "ctx_open = ctx0\<lparr>mailbox_size := 82, mtime := (0, 5), fp := Some 82\<rparr>"


definition hdr_a :: Header where
  "hdr_a = new_header\<lparr>content_offset := 22, content_length := 14, lines := 3,
             env := ''1\<newline>''\<rparr>"

definition hdr_b :: Header where
  "hdr_b = new_header\<lparr>offset := 37, hdr_offset := 37, content_offset := 77,
             content_length := 4, lines := 1, index := 1, env := ''2\<newline>''\<rparr>"

definition ctx_two :: Context where
  "ctx_two = ctx0\<lparr>hdrs := [hdr_a\<lparr>flagged := True\<rparr>, hdr_b\<lparr>tagged := True\<rparr>],
                  mailbox_size := 82, mtime := (1, 0), atime := (1, 0), fp := Some 82\<rparr>"



subsection \<open>Locking and opening\<close>

text \<open>\<open>mbox_lock_mailbox\<close>, for the outcome of \<open>mutt_file_lock\<close> (true: it returned 0).\<close>

definition mbox_lock_mailbox :: "bool \<Rightarrow> bool \<Rightarrow> bool \<Rightarrow> Context \<Rightarrow> status \<times> Context" where
  "mbox_lock_mailbox r_ok excl retry ctx =
     (if r_ok then (RC_OK, ctx\<lparr>locked := True\<rparr>)
      else if retry \<and> \<not> excl then (RC_OK, ctx\<lparr>readonly := True\<rparr>)
      else (RC_ERROR, ctx))"

definition mbox_unlock_mailbox :: "Context \<Rightarrow> Context" where
  "mbox_unlock_mailbox ctx = (if locked ctx then ctx\<lparr>locked := False\<rparr> else ctx)"

definition parse_mailbox :: "collab \<Rightarrow> world \<Rightarrow> Context \<Rightarrow> status \<times> Context \<times> bool" where
  "parse_mailbox c w ctx =
     (if magic ctx = MUTT_MBOX then mbox_parse_mailbox c w ctx
      else if magic ctx = MUTT_MMDF then mmdf_parse_mailbox c w ctx
      else (RC_ERROR, ctx, SigInt (sigint_arrival w) 0))"

definition mbox_mbox_open :: "collab \<Rightarrow> world \<Rightarrow> Context \<Rightarrow> status \<times> Context \<times> bool" where
  "mbox_mbox_open c w ctx =
     (if \<not> fopen_ok w then (RC_ERROR, ctx\<lparr>fp := None\<rparr>, SigInt (sigint_arrival w) 0)
      else
        (case mbox_lock_mailbox (lock_ok w) False True (ctx\<lparr>fp := Some 0\<rparr>) of
           (r, ctx1) \<Rightarrow>
             if r = RC_ERROR then (RC_ERROR, ctx1, SigInt (sigint_arrival w) 0)
             else
               (case parse_mailbox c w ctx1 of
                  (rc, ctx2, sg) \<Rightarrow> (rc, mbox_unlock_mailbox ctx2, sg))))"

definition mbox_mbox_open_append :: "world \<Rightarrow> Context \<Rightarrow> status \<times> Context" where
  "mbox_mbox_open_append w ctx =
     (if \<not> fopen_ok w then (RC_ERROR, ctx\<lparr>fp := None\<rparr>)
      else
        (case mbox_lock_mailbox (lock_ok w) True True (ctx\<lparr>fp := Some 0\<rparr>) of
           (r, ctx1) \<Rightarrow>
             if r \<noteq> RC_OK then (RC_ERROR, ctx1\<lparr>fp := None\<rparr>)
             else (RC_OK, ctx1\<lparr>fp := Some (length (mailbox_file w))\<rparr>)))"

subsection \<open>Reconciliation\<close>

datatype flag = MUTT_FLAG | MUTT_REPLIED | MUTT_OLD | MUTT_READ | MUTT_DELETE | MUTT_PURGE | MUTT_TAG

text \<open>
  Modelled from the spec: \<open>mutt_set_flag\<close> (flags.c) is not under src/. It stores the
  value in the flag of the record and, when that changes the state of the flag, marks
  the mailbox as changed. The second component is \<open>ctx->mailbox->changed\<close>.
\<close>

fun get_flag :: "flag \<Rightarrow> Header \<Rightarrow> bool" where
  "get_flag MUTT_FLAG h = flagged h"
| "get_flag MUTT_REPLIED h = replied h"
| "get_flag MUTT_OLD h = old h"
| "get_flag MUTT_READ h = read h"
| "get_flag MUTT_DELETE h = deleted h"
| "get_flag MUTT_PURGE h = purge h"
| "get_flag MUTT_TAG h = tagged h"

fun put_flag :: "flag \<Rightarrow> bool \<Rightarrow> Header \<Rightarrow> Header" where
  "put_flag MUTT_FLAG v h = h\<lparr>flagged := v\<rparr>"
| "put_flag MUTT_REPLIED v h = h\<lparr>replied := v\<rparr>"
| "put_flag MUTT_OLD v h = h\<lparr>old := v\<rparr>"
| "put_flag MUTT_READ v h = h\<lparr>read := v\<rparr>"
| "put_flag MUTT_DELETE v h = h\<lparr>deleted := v\<rparr>"
| "put_flag MUTT_PURGE v h = h\<lparr>purge := v\<rparr>"
| "put_flag MUTT_TAG v h = h\<lparr>tagged := v\<rparr>"

definition mutt_set_flag :: "flag \<Rightarrow> bool \<Rightarrow> Header \<times> bool \<Rightarrow> Header \<times> bool" where
  "mutt_set_flag fl v hc =
     (case hc of (h, chg) \<Rightarrow> (put_flag fl v h, chg \<or> get_flag fl h \<noteq> v))"

text \<open>The flag transfer of a matched pair, in the order of the calls.\<close>

definition transfer_flags :: "Header \<Rightarrow> Header \<times> bool \<Rightarrow> Header \<times> bool" where
  "transfer_flags o_hdr hc =
     (let hc1 = (if changed o_hdr
                 then mutt_set_flag MUTT_READ (read o_hdr)
                        (mutt_set_flag MUTT_OLD (old o_hdr)
                          (mutt_set_flag MUTT_REPLIED (replied o_hdr)
                            (mutt_set_flag MUTT_FLAG (flagged o_hdr) hc)))
                 else hc)
      in mutt_set_flag MUTT_TAG (tagged o_hdr)
           (mutt_set_flag MUTT_PURGE (purge o_hdr)
             (mutt_set_flag MUTT_DELETE (deleted o_hdr) hc1)))"

text \<open>
  The search of one \<open>for\<close> loop: the first \<open>j\<close> in \<open>[lo, hi)\<close> whose old record is still
  there and compares equal to the new one. \<open>olds\<close> is the array \<open>old_hdrs\<close>, with
  \<open>None\<close> where a record was freed.
\<close>

definition find_old :: "collab \<Rightarrow> Header \<Rightarrow> Header option list \<Rightarrow> nat \<Rightarrow> nat \<Rightarrow> nat option" where
  "find_old c h olds lo hi =
     find (\<lambda>j. case olds ! j of None \<Rightarrow> False
                              | Some o_hdr \<Rightarrow> mutt_header_cmp_strict c h o_hdr)
       [lo..<hi]"

definition find_match :: "collab \<Rightarrow> Header \<Rightarrow> Header option list \<Rightarrow> nat \<Rightarrow> nat option" where
  "find_match c h olds i =
     (case find_old c h olds i (length olds) of
        Some j \<Rightarrow> Some j
      | None \<Rightarrow> find_old c h olds 0 (min i (length olds)))"

record recover_state =
  new_hdrs :: "Header list"
  old_hdrs :: "Header option list"
  chg :: bool
  index_hint :: "int option"

definition recover_step :: "collab \<Rightarrow> recover_state \<Rightarrow> nat \<Rightarrow> recover_state" where
  "recover_step c s i =
     (case find_match c (new_hdrs s ! i) (old_hdrs s) i of
        None \<Rightarrow> s
      | Some j \<Rightarrow>
          (case old_hdrs s ! j of
             None \<Rightarrow> s
           | Some o_hdr \<Rightarrow>
               (case transfer_flags o_hdr (new_hdrs s ! i, chg s) of
                  (h, ch) \<Rightarrow>
                    \<lparr>new_hdrs = (new_hdrs s)[i := h],
                     old_hdrs = (old_hdrs s)[j := None],
                     chg = ch,
                     index_hint = (if index_hint s = Some (int j) then Some (int i)
                                   else index_hint s)\<rparr>)))"

definition recover_flags :: "collab \<Rightarrow> recover_state \<Rightarrow> recover_state" where
  "recover_flags c s = foldl (recover_step c) s [0..<length (new_hdrs s)]"

text \<open>
  \<open>reopen_mailbox\<close>. The Header Store is held in the order of the file, which is the
  order the function sorts it into first. The result is the status, the context, the
  index hint and \<open>SigInt\<close>.
\<close>

definition reopen_mailbox ::
  "collab \<Rightarrow> world \<Rightarrow> int option \<Rightarrow> Context \<Rightarrow> status \<times> Context \<times> int option \<times> bool" where
  "reopen_mailbox c w hint ctx =
     (let olds = (if readonly ctx then [] else map Some (hdrs ctx));
          ctx1 = ctx\<lparr>quiet := True, hdrs := [], mailbox_changed := False\<rparr>;
          (rc, ctx2, sg) =
            (if magic ctx1 = MUTT_MBOX \<or> magic ctx1 = MUTT_MMDF then
               if \<not> fopen_ok w then (RC_ERROR, ctx1\<lparr>fp := None\<rparr>, SigInt (sigint_arrival w) 0)
               else parse_mailbox c w (ctx1\<lparr>fp := Some 0\<rparr>)
             else (RC_ERROR, ctx1, SigInt (sigint_arrival w) 0))
      in if rc = RC_ERROR then (RC_ERROR, ctx2\<lparr>quiet := False\<rparr>, hint, sg)
         else if \<not> readonly ctx2 then
           let s = recover_flags c \<lparr>new_hdrs = hdrs ctx2, old_hdrs = olds,
                                     chg = mailbox_changed ctx2, index_hint = hint\<rparr>;
               msg_mod = (\<exists>x \<in> set (old_hdrs s). x \<noteq> None)
           in (if chg s \<or> msg_mod then MUTT_REOPENED else MUTT_NEW_MAIL,
               ctx2\<lparr>hdrs := new_hdrs s, mailbox_changed := chg s, quiet := False\<rparr>,
               index_hint s, sg)
         else (if mailbox_changed ctx2 then MUTT_REOPENED else MUTT_NEW_MAIL,
               ctx2\<lparr>quiet := False\<rparr>, hint, sg))"

subsection \<open>The integrity check\<close>

text \<open>
  \<open>mx_fastclose_mailbox\<close> (mx.c) closes the stream and empties the Header Store.
\<close>

definition mx_fastclose_mailbox :: "Context \<Rightarrow> Context" where
  "mx_fastclose_mailbox ctx = ctx\<lparr>hdrs := [], fp := None, mailbox_size := 0\<rparr>"

definition is_boundary :: "MailboxType \<Rightarrow> string \<Rightarrow> bool" where
  "is_boundary m buf =
     ((m = MUTT_MBOX \<and> take 5 (c_str buf) = ''From '') \<or>
      (m = MUTT_MMDF \<and> c_str buf = MMDF_SEP))"

text \<open>\<open>fseeko\<close> to an offset and \<open>fgets\<close> there; a failed seek leaves the stream where it is.\<close>

definition seek_gets :: "nat \<Rightarrow> string \<Rightarrow> nat option \<Rightarrow> int \<Rightarrow> (string \<times> nat) option" where
  "seek_gets n f stream off =
     (case stream of
        None \<Rightarrow> None
      | Some p \<Rightarrow> fgets n f (if off < 0 then p else nat off))"

definition mbox_mbox_check ::
  "collab \<Rightarrow> world \<Rightarrow> int option \<Rightarrow> Context \<Rightarrow> status \<times> Context \<times> int option \<times> bool" where
  "mbox_mbox_check c w hint ctx =
     (let sg0 = SigInt (sigint_arrival w) 0;
          fatal = (\<lambda>cx. (RC_ERROR, mx_fastclose_mailbox (mbox_unlock_mailbox cx), hint, sg0));
          reopen = (\<lambda>unlock cx.
            (case reopen_mailbox c w hint cx of
               (rc, cx1, hint1, sg) \<Rightarrow>
                 if rc \<noteq> RC_ERROR
                 then (MUTT_REOPENED, if unlock then mbox_unlock_mailbox cx1 else cx1, hint1, sg)
                 else (RC_ERROR, mx_fastclose_mailbox (mbox_unlock_mailbox cx1), hint1, sg)))
      in case stat_res w of
           None \<Rightarrow> fatal ctx
         | Some st \<Rightarrow>
             if st_mtime st = mtime ctx \<and> st_size st = mailbox_size ctx then (RC_OK, ctx, hint, sg0)
             else if st_size st = mailbox_size ctx
             then (RC_OK, ctx\<lparr>mtime := st_mtime st\<rparr>, hint, sg0)
             else if st_size st > mailbox_size ctx then
               (case (if \<not> locked ctx then mbox_lock_mailbox (lock_ok w) False False ctx
                      else (RC_OK, ctx)) of
                  (r, ctx1) \<Rightarrow>
                    if r = RC_ERROR then (MUTT_LOCKED, ctx1, hint, sg0)
                    else
                      let unlock = \<not> locked ctx
                      in (case seek_gets (LONG_STRING c) (mailbox_file w) (fp ctx1)
                                 (mailbox_size ctx1) of
                            None \<Rightarrow> reopen unlock ctx1
                          | Some (buffer, p) \<Rightarrow>
                              if is_boundary (magic ctx1) buffer then
                                (case parse_mailbox c w
                                        (ctx1\<lparr>fp := (if mailbox_size ctx1 < 0 then Some p
                                                        else Some (nat (mailbox_size ctx1)))\<rparr>) of
                                   (rc, ctx2, sg) \<Rightarrow>
                                     (MUTT_NEW_MAIL,
                                      if unlock then mbox_unlock_mailbox ctx2 else ctx2, hint, sg))
                              else reopen unlock (ctx1\<lparr>fp := Some p\<rparr>)))
             else reopen False ctx)"

subsection \<open>Rewriting the mailbox\<close>

text \<open>
  \<open>mbox_has_new\<close> and the times \<open>mbox_reset_atime\<close> passes to \<open>utime\<close> for a given
  \<open>stat\<close> buffer: the access and the modification time in seconds.
\<close>

definition mbox_has_new :: "Header list \<Rightarrow> bool" where
  "mbox_has_new hs = (\<exists>h \<in> set hs. \<not> deleted h \<and> \<not> read h \<and> \<not> old h)"

definition mbox_reset_atime :: "bool \<Rightarrow> Header list \<Rightarrow> stat \<Rightarrow> int \<times> int" where
  "mbox_reset_atime mail_check_recent hs st =
     (let actime = fst (st_atime st); modtime = fst (st_mtime st)
      in if \<not> mail_check_recent \<and> actime \<ge> modtime \<and> mbox_has_new hs
         then (modtime - 1, modtime) else (actime, modtime))"

text \<open>\<open>struct MUpdate\<close>; \<open>mutt_mem_calloc\<close> gives entries that are all zero.\<close>

record MUpdate =
  mu_valid :: bool
  mu_hdr :: int
  mu_body :: int
  mu_lines :: int
  mu_length :: int

definition MUpdate_zero :: MUpdate where
  "MUpdate_zero = \<lparr>mu_valid = False, mu_hdr = 0, mu_body = 0, mu_lines = 0, mu_length = 0\<rparr>"

text \<open>
  The message copy \<open>mutt_copy_message_ctx\<close> (copy.c) with \<open>MUTT_CM_UPDATE\<close> and
  \<open>CH_UPDATE_LEN\<close> is a collaborator: whether it succeeds, the bytes it appends to the
  temporary file, and the body offset, length and line count it leaves in the record.
\<close>

record copy_result =
  copy_ok :: bool
  written :: string
  upd_offset :: int
  upd_length :: int
  upd_lines :: int

datatype temp_open = Open_Fails | Fdopen_Fails | Temp_Opened

text \<open>
  The outcomes of the system calls of one \<open>mbox_mbox_sync\<close>, in the order of the code,
  and the configuration it reads. \<open>mailbox_at_commit\<close> is what the mailbox file holds
  when the splice starts; \<open>copy_stream\<close> is \<open>None\<close> when the copy back succeeds and
  \<open>Some k\<close> when it fails after \<open>k\<close> bytes.
\<close>

record sync_env =
  mailbox_path :: string
  freopen_rw_ok :: bool
  mktemp :: string
  temp_open_res :: temp_open
  sep_write_ok :: "nat \<Rightarrow> bool"
  mutt_copy_message_ctx :: "string \<Rightarrow> Header \<Rightarrow> copy_result"
  end_write_ok :: "nat \<Rightarrow> bool"
  fclose_temp_ok :: bool
  sync_stat :: "stat option"
  fopen_temp_ok :: bool
  mailbox_at_commit :: string
  seek_offset_ok :: bool
  seek_back_ok :: bool
  copy_stream :: "nat option"
  ferror_mailbox :: bool
  ftello_ok :: bool
  ftruncate_ok :: bool
  fclose_mailbox_ok :: bool
  rename_ok :: bool
  fopen_ro_ok :: bool
  freopen_r_ok :: bool
  Tmpdir :: "string option"
  Username :: "string option"
  ShortHostname :: "string option"
  getpid :: nat
  PATH_MAX :: nat
  mutt_pretty_mailbox :: "string \<Rightarrow> string"
  MailCheckRecent :: bool

datatype temp_state = No_Temp | Temp_At string | Temp_Unlinked | Temp_Renamed string

datatype ui_message =
    Fatal_Could_Not_Reopen
  | Unable_To_Lock
  | Could_Not_Create_Temp
  | No_Modified_Messages
  | Perror string
  | Write_Failed_Saved string
  | Could_Not_Reopen

record sync_result =
  rc :: status
  ctx_out :: Context
  temp_out :: temp_state
  file_out :: string
  messages :: "ui_message list"
  utime_out :: "(int \<times> int) option"
  hint_out :: "int option"

record write_state =
  w_hdrs :: "Header list"
  w_temp :: string
  w_old_offset :: "MUpdate list"
  w_new_offset :: "MUpdate list"

text \<open>
  One pass of the copying loop for message \<open>i\<close>; \<open>Inl\<close> is a \<open>goto bail\<close>. The
  ledger entry is written before anything else.
\<close>

definition write_message ::
  "sync_env \<Rightarrow> MailboxType \<Rightarrow> int \<Rightarrow> write_state \<Rightarrow> nat \<Rightarrow> write_state + write_state" where
  "write_message se m off s i =
     (let h = w_hdrs s ! i;
          s1 = s\<lparr>w_old_offset := w_old_offset s @
                  [\<lparr>mu_valid = True, mu_hdr = offset h, mu_body = content_offset h,
                    mu_lines = lines h, mu_length = content_length h\<rparr>]\<rparr>
      in if deleted h then Inr (s1\<lparr>w_new_offset := w_new_offset s1 @ [MUpdate_zero]\<rparr>)
         else if m = MUTT_MMDF \<and> \<not> sep_write_ok se i then Inl s1
         else
           let t1 = (if m = MUTT_MMDF then w_temp s1 @ MMDF_SEP else w_temp s1);
               new_hdr = int (length t1) + off;
               r = mutt_copy_message_ctx se t1 h;
               h' = h\<lparr>content_offset := upd_offset r, content_length := upd_length r,
                       lines := upd_lines r\<rparr>;
               t2 = t1 @ written r;
               s2 = s1\<lparr>w_hdrs := (w_hdrs s1)[i := h'], w_temp := t2\<rparr>
           in if \<not> copy_ok r then Inl s2
              else
                let new_body = int (length t2) - content_length h' + off;
                    s3 = s2\<lparr>w_new_offset := w_new_offset s2 @
                            [MUpdate_zero\<lparr>mu_hdr := new_hdr, mu_body := new_body\<rparr>]\<rparr>
                in if \<not> end_write_ok se i then Inl s3
                   else Inr (s3\<lparr>w_temp := t2 @ (if m = MUTT_MMDF then MMDF_SEP
                                                   else [CHR 0x0A])\<rparr>))"

fun write_messages ::
  "sync_env \<Rightarrow> MailboxType \<Rightarrow> int \<Rightarrow> write_state \<Rightarrow> nat list \<Rightarrow> write_state + write_state" where
  "write_messages se m off s [] = Inr s"
| "write_messages se m off s (i # is) =
     (case write_message se m off s i of
        Inl s' \<Rightarrow> Inl s'
      | Inr s' \<Rightarrow> write_messages se m off s' is)"

text \<open>The restore loop at \<open>bail\<close>, over the valid entries of the ledger.\<close>

definition restore_one :: "MUpdate \<Rightarrow> Header \<Rightarrow> Header" where
  "restore_one u h = h\<lparr>offset := mu_hdr u, hdr_offset := mu_hdr u, content_offset := mu_body u,
                        lines := mu_lines u, content_length := mu_length u\<rparr>"

fun restore_offsets :: "nat \<Rightarrow> MUpdate list \<Rightarrow> Header list \<Rightarrow> Header list" where
  "restore_offsets i [] hs = hs"
| "restore_offsets i (u # us) hs =
     (if i < length hs \<and> mu_valid u
      then restore_offsets (Suc i) us (hs[i := restore_one u (hs ! i)])
      else hs)"

text \<open>The update of the rewritten records after a successful commit.\<close>

fun update_offsets :: "nat \<Rightarrow> int \<Rightarrow> MUpdate list \<Rightarrow> Header list \<Rightarrow> Header list" where
  "update_offsets i j [] hs = hs"
| "update_offsets i j (u # us) hs =
     (if i < length hs then
        (if \<not> deleted (hs ! i)
         then update_offsets (Suc i) (j + 1) us
                (hs[i := (hs ! i)\<lparr>offset := mu_hdr u, hdr_offset := mu_hdr u,
                                   content_offset := mu_body u, index := j\<rparr>])
         else update_offsets (Suc i) j us hs)
      else hs)"

definition first_modified :: "Header list \<Rightarrow> nat" where
  "first_modified hs =
     length (takeWhile (\<lambda>h. \<not> deleted h \<and> \<not> changed h \<and> \<not> attach_del h) hs)"

definition NONULL :: "string option \<Rightarrow> string" where
  "NONULL p = (case p of None \<Rightarrow> [] | Some s \<Rightarrow> s)"

definition savefile_name :: "sync_env \<Rightarrow> string" where
  "savefile_name se =
     snprintf (PATH_MAX se)
       (NONULL (Tmpdir se) @ ''/neomutt.'' @ NONULL (Username se) @ ''-'' @
        NONULL (ShortHostname se) @ ''-'' @ show_nat (getpid se))"

definition overwrite :: "string \<Rightarrow> nat \<Rightarrow> string \<Rightarrow> string" where
  "overwrite f off bytes = take off f @ bytes @ drop (off + length bytes) f"

text \<open>
  The label \<open>bail\<close>: \<open>first\<close> is \<open>None\<close> while the variable is \<open>-1\<close>, \<open>ledger\<close> is
  \<open>old_offset\<close>.
\<close>

definition bail ::
  "sync_env \<Rightarrow> status \<Rightarrow> nat option \<Rightarrow> MUpdate list \<Rightarrow> temp_state \<Rightarrow> ui_message list \<Rightarrow>
   string \<Rightarrow> int option \<Rightarrow> Context \<Rightarrow> sync_result" where
  "bail se r first ledger tmp msgs_so_far f hint ctx =
     (let hs = (case first of None \<Rightarrow> hdrs ctx | Some i \<Rightarrow> restore_offsets i ledger (hdrs ctx));
          ctx1 = mbox_unlock_mailbox (ctx\<lparr>hdrs := hs\<rparr>)
      in if \<not> freopen_r_ok se
         then \<lparr>rc = RC_ERROR, ctx_out = mx_fastclose_mailbox ctx1, temp_out = tmp, file_out = f,
               messages = msgs_so_far @ [Could_Not_Reopen], utime_out = None, hint_out = hint\<rparr>
         else \<lparr>rc = r, ctx_out = ctx1\<lparr>fp := Some 0\<rparr>, temp_out = tmp, file_out = f,
               messages = msgs_so_far, utime_out = None, hint_out = hint\<rparr>)"

text \<open>
  The splice, from the sanity check at \<open>off\<close> to the truncation: whether \<open>i\<close> is 0 at
  the end, the mailbox file and \<open>ctx->mailbox->size\<close>.
\<close>

definition splice :: "sync_env \<Rightarrow> MailboxType \<Rightarrow> int \<Rightarrow> string \<Rightarrow> int \<Rightarrow> bool \<times> string \<times> int" where
  "splice se m off tmp sz =
     (let f = mailbox_at_commit se
      in if \<not> seek_offset_ok se \<or> off < 0 then (False, f, sz)
         else
           (case fgets 32 f (nat off) of
              None \<Rightarrow> (False, f, sz)
            | Some (buf, p) \<Rightarrow>
                if (m = MUTT_MBOX \<and> take 5 (c_str buf) \<noteq> ''From '') \<or>
                   (m = MUTT_MMDF \<and> c_str buf \<noteq> MMDF_SEP)
                then (False, f, sz)
                else if \<not> seek_back_ok se then (False, f, sz)
                else
                  let f1 = (case copy_stream se of
                              None \<Rightarrow> overwrite f (nat off) tmp
                            | Some k \<Rightarrow> overwrite f (nat off) (take k tmp))
                  in if copy_stream se \<noteq> None \<or> ferror_mailbox se then (False, f1, sz)
                     else
                       let sz1 = (if ftello_ok se then off + int (length tmp) else - 1)
                       in if sz1 < 0 \<or> \<not> ftruncate_ok se then (False, f1, sz1)
                          else (True, take (nat sz1) f1, sz1)))"

definition stop ::
  "Context \<Rightarrow> temp_state \<Rightarrow> ui_message list \<Rightarrow> string \<Rightarrow> (int \<times> int) option \<Rightarrow> int option
     \<Rightarrow> sync_result" where
  "stop cx tmp ms fl ut h =
     \<lparr>rc = RC_ERROR, ctx_out = cx, temp_out = tmp, file_out = fl, messages = ms,
      utime_out = ut, hint_out = h\<rparr>"

text \<open>
  \<open>mbox_mbox_sync\<close> from \<open>fopen (tempfile, "r")\<close> to the end: the temporary file holds
  \<open>w_temp s\<close>, \<open>statbuf\<close> is the state of the folder saved before.
\<close>

definition sync_commit ::
  "sync_env \<Rightarrow> nat \<Rightarrow> int \<Rightarrow> write_state \<Rightarrow> stat \<Rightarrow> string \<Rightarrow> int option \<Rightarrow> Context
     \<Rightarrow> sync_result" where
  "sync_commit se first off s statbuf f hint ctx3 =
     (if \<not> fopen_temp_ok se
      then stop (mx_fastclose_mailbox ctx3) (Temp_At (mktemp se)) [Perror (mktemp se)] f None hint
      else
        (case splice se (magic ctx3) off (w_temp s) (mailbox_size ctx3) of
           (ok, f1, sz1) \<Rightarrow>
             let ctx4 = mbox_unlock_mailbox (ctx3\<lparr>mailbox_size := sz1\<rparr>)
             in if \<not> fclose_mailbox_ok se \<or> \<not> ok
                then stop (mx_fastclose_mailbox (ctx4\<lparr>fp := None\<rparr>))
                       (if rename_ok se then Temp_Renamed (savefile_name se)
                        else Temp_At (mktemp se))
                       [Write_Failed_Saved (mutt_pretty_mailbox se (savefile_name se))]
                       f1 None hint
                else
                  let ut = Some (mbox_reset_atime (MailCheckRecent se) (hdrs ctx4) statbuf)
                  in if \<not> fopen_ro_ok se
                     then stop (mx_fastclose_mailbox (ctx4\<lparr>fp := None\<rparr>)) Temp_Unlinked
                            [Fatal_Could_Not_Reopen] f1 ut hint
                     else
                       \<lparr>rc = RC_OK,
                        ctx_out = ctx4\<lparr>fp := Some 0,
                                        hdrs := update_offsets first (int first) (w_new_offset s)
                                                  (hdrs ctx4)\<rparr>,
                        temp_out = Temp_Unlinked, file_out = f1, messages = [],
                        utime_out = ut, hint_out = hint\<rparr>))"

text \<open>
  \<open>mbox_mbox_sync\<close> from the search for the first modified message, with the temporary
  file open for writing, to the end.
\<close>

definition sync_rewrite ::
  "sync_env \<Rightarrow> string \<Rightarrow> int option \<Rightarrow> Context \<Rightarrow> sync_result" where
  "sync_rewrite se f hint ctx2 =
     (let first = first_modified (hdrs ctx2)
      in if first = length (hdrs ctx2)
         then bail se RC_ERROR None [] Temp_Unlinked [No_Modified_Messages] f hint ctx2
         else
           let off = offset (hdrs ctx2 ! first) -
                     (if magic ctx2 = MUTT_MMDF then int (length MMDF_SEP) else 0)
           in (case write_messages se (magic ctx2) off
                      \<lparr>w_hdrs = hdrs ctx2, w_temp = [], w_old_offset = [], w_new_offset = []\<rparr>
                      [first..<length (hdrs ctx2)] of
                 Inl s \<Rightarrow>
                   bail se RC_ERROR (Some first) (w_old_offset s) Temp_Unlinked
                     [Perror (mktemp se)] f hint (ctx2\<lparr>hdrs := w_hdrs s\<rparr>)
               | Inr s \<Rightarrow>
                   if \<not> fclose_temp_ok se
                   then bail se RC_ERROR (Some first) (w_old_offset s) Temp_Unlinked
                          [Perror (mktemp se)] f hint (ctx2\<lparr>hdrs := w_hdrs s\<rparr>)
                   else
                     (case sync_stat se of
                        None \<Rightarrow>
                          bail se RC_ERROR (Some first) (w_old_offset s) Temp_Unlinked
                            [Perror (mailbox_path se)] f hint (ctx2\<lparr>hdrs := w_hdrs s\<rparr>)
                      | Some statbuf \<Rightarrow>
                          sync_commit se first off s statbuf f hint (ctx2\<lparr>hdrs := w_hdrs s\<rparr>))))"

definition mbox_mbox_sync ::
  "collab \<Rightarrow> world \<Rightarrow> sync_env \<Rightarrow> int option \<Rightarrow> Context \<Rightarrow> sync_result" where
  "mbox_mbox_sync c w se hint ctx =
     (let f = mailbox_file w
      in if \<not> freopen_rw_ok se
         then stop (mx_fastclose_mailbox (ctx\<lparr>fp := None\<rparr>)) No_Temp [Fatal_Could_Not_Reopen]
                f None hint
         else
           (case mbox_lock_mailbox (lock_ok w) True True (ctx\<lparr>fp := Some 0\<rparr>) of
              (r, ctx1) \<Rightarrow>
                if r = RC_ERROR then bail se RC_ERROR None [] No_Temp [Unable_To_Lock] f hint ctx1
                else
                  (case mbox_mbox_check c w hint ctx1 of
                     (i, ctx2, hint2, sg) \<Rightarrow>
                       if i = MUTT_NEW_MAIL \<or> i = MUTT_REOPENED
                       then bail se i None [] No_Temp [] f hint2 ctx2
                       else if i = RC_ERROR \<or> i = RC_ABORTED
                       then stop ctx2 No_Temp [] f None hint2
                       else
                         (case temp_open_res se of
                            Open_Fails \<Rightarrow>
                              bail se RC_ERROR None [] No_Temp [Could_Not_Create_Temp] f hint2 ctx2
                          | Fdopen_Fails \<Rightarrow>
                              bail se RC_ERROR None [] Temp_Unlinked [Could_Not_Create_Temp] f
                                hint2 ctx2
                          | Temp_Opened \<Rightarrow> sync_rewrite se f hint2 ctx2))))"


text \<open>
  A message copy for the instance: the bytes of the message as they are in the file,
  with the body offset it leaves counted in the temporary file; and a world of
  \<open>mbox_mbox_sync\<close> on \<open>mbox1\<close> in which every call succeeds.
\<close>

definition demo_copy :: "string \<Rightarrow> string \<Rightarrow> Header \<Rightarrow> copy_result" where
  "demo_copy f t h =
     \<lparr>copy_ok = True,
      written = take (nat (content_offset h + content_length h - offset h)) (drop (nat (offset h)) f),
      upd_offset = int (length t) + (content_offset h - offset h),
      upd_length = content_length h,
      upd_lines = lines h\<rparr>"

definition se0 :: sync_env where
  "se0 = \<lparr>mailbox_path = ''/var/mail/u'', freopen_rw_ok = True, mktemp = ''/tmp/neomutt-h-1000-42-7'',
          temp_open_res = Temp_Opened, sep_write_ok = (\<lambda>i. True),
          mutt_copy_message_ctx = demo_copy mbox1, end_write_ok = (\<lambda>i. True),
          fclose_temp_ok = True,
          sync_stat = Some \<lparr>st_size = 82, st_mtime = (1, 0), st_atime = (1, 0)\<rparr>,
          fopen_temp_ok = True, mailbox_at_commit = mbox1, seek_offset_ok = True,
          seek_back_ok = True, copy_stream = None, ferror_mailbox = False, ftello_ok = True,
          ftruncate_ok = True, fclose_mailbox_ok = True, rename_ok = True, fopen_ro_ok = True,
          freopen_r_ok = True, Tmpdir = Some ''/tmp'', Username = Some ''u'',
          ShortHostname = Some ''h'', getpid = 42, PATH_MAX = 4096,
          mutt_pretty_mailbox = (\<lambda>s. s), MailCheckRecent = True\<rparr>"






subsection \<open>Notions used in the properties\<close>








definition copied :: "Header \<Rightarrow> Header \<Rightarrow> bool" where
  "copied h h' =
     (h'\<lparr>content_offset := content_offset h, content_length := content_length h,
         lines := lines h\<rparr> = h)"








section \<open>Properties of the query window\<close>

subsection \<open>Signed reading of the position counter\<close>

lemma sint_succ: "sint (p::c_int) < 2147483647 \<Longrightarrow> sint (p + 1) = sint p + 1"
proof -
  assume a: "sint p < 2147483647"
  have lo: "- (2 ^ 31) \<le> sint p" using sint_ge [of p] by simp
  have "sint (p + 1) = signed_take_bit 31 (sint p + sint (1::c_int))"
    by (simp add: sint_word_ariths)
  also have "\<dots> = signed_take_bit 31 (sint p + 1)" by simp
  also have "\<dots> = sint p + 1"
    using a lo by (intro signed_take_bit_int_eq_self) simp_all
  finally show ?thesis .
qed

lemma sint_pred: "0 \<le> sint (p::c_int) \<Longrightarrow> sint (p - 1) = sint p - 1"
proof -
  assume a: "0 \<le> sint p"
  have hi: "sint p < 2 ^ 31" using sint_lt [of p] by simp
  have "sint (p - 1) = signed_take_bit 31 (sint p - sint (1::c_int))"
    by (simp add: sint_word_ariths)
  also have "\<dots> = signed_take_bit 31 (sint p - 1)" by simp
  also have "\<dots> = sint p - 1"
    using a hi by (intro signed_take_bit_int_eq_self) simp_all
  finally show ?thesis .
qed

lemma sint_pos_of_nonzero: "0 \<le> sint (p::c_int) \<Longrightarrow> p \<noteq> 0 \<Longrightarrow> 0 < sint p"
  using signed_eq_0_iff [of p, where ?'a = int] by (simp add: less_le)

text \<open>What each operation does to the counter.\<close>

lemma window_operations:
  "NmQueryWindowCurrentPosition (nm_query_window_forward g) =
     (if NmQueryWindowCurrentPosition g = 0 then 0 else NmQueryWindowCurrentPosition g - 1)"
  "NmQueryWindowCurrentPosition (nm_query_window_backward g) = NmQueryWindowCurrentPosition g + 1"
  "NmQueryWindowCurrentPosition (query_window_reset g) = 0"
  by (simp_all add: nm_query_window_forward_def nm_query_window_backward_def
      query_window_reset_def)

lemma window_step_bounds:
  assumes "0 \<le> sint (NmQueryWindowCurrentPosition g)"
    and "sint (NmQueryWindowCurrentPosition g) + int (backward_calls [x]) < 2 ^ 31"
  shows "0 \<le> sint (NmQueryWindowCurrentPosition (window_step g x)) \<and>
         sint (NmQueryWindowCurrentPosition (window_step g x))
           \<le> sint (NmQueryWindowCurrentPosition g) + int (backward_calls [x])"
proof (cases x)
  case Forward
  show ?thesis
  proof (cases "NmQueryWindowCurrentPosition g = 0")
    case True
    with Forward show ?thesis
      by (simp add: nm_query_window_forward_def backward_calls_def)
  next
    case False
    with assms(1) have "0 < sint (NmQueryWindowCurrentPosition g)"
      by (rule sint_pos_of_nonzero)
    with Forward False assms(1) show ?thesis
      by (simp add: nm_query_window_forward_def backward_calls_def sint_pred)
  qed
next
  case Backward
  with assms show ?thesis
    by (simp add: nm_query_window_backward_def backward_calls_def sint_succ)
next
  case Reset
  with assms show ?thesis
    by (simp add: query_window_reset_def backward_calls_def)
qed

lemma window_run_bounds:
  "0 \<le> sint (NmQueryWindowCurrentPosition g) \<Longrightarrow>
   sint (NmQueryWindowCurrentPosition g) + int (backward_calls ops) < 2 ^ 31 \<Longrightarrow>
   0 \<le> sint (NmQueryWindowCurrentPosition (window_run g ops)) \<and>
   sint (NmQueryWindowCurrentPosition (window_run g ops))
     \<le> sint (NmQueryWindowCurrentPosition g) + int (backward_calls ops)"
proof (induction ops arbitrary: g)
  case Nil
  then show ?case by (simp add: backward_calls_def)
next
  case (Cons x xs)
  let ?p = "sint (NmQueryWindowCurrentPosition g)"
  have split: "int (backward_calls (x # xs)) = int (backward_calls [x]) + int (backward_calls xs)"
    by (simp add: backward_calls_def)
  have one: "?p + int (backward_calls [x]) < 2 ^ 31"
    using Cons.prems(2) split by linarith
  from window_step_bounds [OF Cons.prems(1) one]
  have s1: "0 \<le> sint (NmQueryWindowCurrentPosition (window_step g x))"
    and s2: "sint (NmQueryWindowCurrentPosition (window_step g x)) \<le> ?p + int (backward_calls [x])"
    by simp_all
  have rest: "sint (NmQueryWindowCurrentPosition (window_step g x)) + int (backward_calls xs) < 2 ^ 31"
    using s2 Cons.prems(2) split by linarith
  from Cons.IH [OF s1 rest] s2 split show ?case by simp
qed

lemma window_run_replicate_Backward:
  "NmQueryWindowCurrentPosition (window_run g (replicate n Backward))
     = NmQueryWindowCurrentPosition g + of_nat n"
  by (induction n arbitrary: g) (simp_all add: nm_query_window_backward_def)

text \<open>
  C10, as the code has it. The counter is an \<open>int\<close>: starting from 0, after any sequence
  of forward, backward and reset calls that holds fewer than \<open>2 ^ 31\<close> backward calls the
  position is not negative, and it is at most the number of backward calls made.
\<close>

theorem window_position_nonneg:
  assumes "NmQueryWindowCurrentPosition g = 0" and "backward_calls ops < 2 ^ 31"
  shows "0 \<le> sint (NmQueryWindowCurrentPosition (window_run g ops)) \<and>
         sint (NmQueryWindowCurrentPosition (window_run g ops)) \<le> int (backward_calls ops)"
proof -
  have a: "0 \<le> sint (NmQueryWindowCurrentPosition g)" using assms(1) by simp
  have "int (backward_calls ops) < 2 ^ 31"
    using assms(2) by (metis of_nat_less_iff of_nat_numeral of_nat_power)
  then have b: "sint (NmQueryWindowCurrentPosition g) + int (backward_calls ops) < 2 ^ 31"
    using assms(1) by simp
  from window_run_bounds [OF a b] assms(1) show ?thesis by simp
qed

theorem window_position_nonneg_witness:
  "NmQueryWindowCurrentPosition g0 = 0 \<and>
   backward_calls [Backward, Forward, Forward, Reset, Backward] < 2 ^ 31 \<and>
   0 \<le> sint (NmQueryWindowCurrentPosition
            (window_run g0 [Backward, Forward, Forward, Reset, Backward]))"
  using window_position_nonneg [of g0 "[Backward, Forward, Forward, Reset, Backward]"]
  by (simp add: g0_def backward_calls_def)

text \<open>
  The claim as stated, for every sequence, fails: the \<open>2 ^ 31\<close>-th increment in a row
  takes the counter from \<open>INT_MAX\<close> to \<open>INT_MIN\<close>.
\<close>

theorem window_position_counterexample:
  "sint (NmQueryWindowCurrentPosition (window_run g0 (replicate 2147483648 Backward))) < 0"
  by (simp add: window_run_replicate_Backward g0_def)

subsection \<open>The window of a query\<close>

text \<open>
  With a positive duration, a valid timebase and the query already registered as the
  current search, the window is computed from the stored position.
\<close>

lemma windowed_query_same_search:
  assumes "0 < sint (NmQueryWindowDuration g)"
    and "query_window_check_timebase (NmQueryWindowTimebase g)"
    and "NmQueryWindowCurrentSearch g = Some query"
  shows "windowed_query_from_query query buflen g =
    (Some (snprintf buflen
       (if NmQueryWindowDuration g * NmQueryWindowCurrentPosition g = 0
        then ''date:'' @ fmt_d (NmQueryWindowDuration g * (NmQueryWindowCurrentPosition g + 1)) @
             NmQueryWindowTimebase g @ ''.. and '' @ query
        else ''date:'' @ fmt_d (NmQueryWindowDuration g * (NmQueryWindowCurrentPosition g + 1)) @
             NmQueryWindowTimebase g @ ''..'' @
             fmt_d (NmQueryWindowDuration g * NmQueryWindowCurrentPosition g) @
             NmQueryWindowTimebase g @ '' and '' @ query)), g)"
  using assms by (simp add: windowed_query_from_query_def Let_def fmt_s_def)

lemma windowed_query_disabled:
  "sint (NmQueryWindowDuration g) \<le> 0 \<Longrightarrow>
   windowed_query_from_query query buflen g = (None, query_window_reset g)"
  by (simp add: windowed_query_from_query_def Let_def)

text \<open>
  C9, at the input where the code leaves the claim. With duration 3, timebase
  \<open>month\<close>, position 4 and \<open>tag:archived\<close> registered, a call for the new query
  \<open>tag:inbox\<close> resets the stored position to 0 only after the window has been computed:
  the string is the window of position 4, around the old search. Through
  \<open>get_query_string\<close> the new query is registered before the comparison, so the position
  is not reset at all and the new query gets the window of position 4.
\<close>

theorem windowed_query_stale_position:
  "windowed_query_from_query ''tag:inbox'' 1024
     (g0\<lparr>NmQueryWindowCurrentPosition := 4, NmQueryWindowCurrentSearch := Some ''tag:archived''\<rparr>)
   = (Some ''date:15month..12month and tag:archived'',
      g0\<lparr>NmQueryWindowCurrentPosition := 0, NmQueryWindowCurrentSearch := Some ''tag:archived''\<rparr>)
   \<and>
   get_query_string (\<lambda>s. 0) 1024
     (Some \<lparr>db_query = None, db_limit = 0, query_type = NM_QUERY_TYPE_MESGS,
            query_strings = [(Some ''query'', Some ''tag:inbox'')]\<rparr>) True
     (g0\<lparr>NmQueryWindowCurrentPosition := 4, NmQueryWindowCurrentSearch := Some ''tag:archived''\<rparr>)
   = (Some ''date:15month..12month and tag:inbox'',
      Some \<lparr>db_query = Some ''date:15month..12month and tag:inbox'', db_limit = 0,
            query_type = NM_QUERY_TYPE_MESGS,
            query_strings = [(Some ''query'', Some ''tag:inbox'')]\<rparr>,
      g0\<lparr>NmQueryWindowCurrentPosition := 4, NmQueryWindowCurrentSearch := Some ''tag:inbox''\<rparr>)"
  by code_simp

section \<open>Properties of the parsers\<close>

subsection \<open>The invariant of the mbox loop\<close>


lemma length_close_last [simp]: "length (close_last endpos k hs) = length hs"
  by (cases "hs = []") (simp_all add: close_last_def)



lemma mbox_step_stop_msgs:
  "\<not> fst (mbox_step c e sz s) \<Longrightarrow>
   msgs (snd (mbox_step c e sz s)) = msgs s \<and> count (snd (mbox_step c e sz s)) = count s \<and>
   nlines (snd (mbox_step c e sz s)) = nlines s"
  by (auto simp: mbox_step_def Let_def split: option.splits prod.splits if_splits)




lemma mbox_parse_result:
  assumes "stat_res e = Some sb" and "fp ctx = Some start"
  shows "mbox_parse_mailbox c e ctx =
           (let s = mbox_loop c e (st_size sb) (mbox_start start (hdrs ctx))
            in (if SigInt (sigint_arrival e) (reads s) then RC_ABORTED else RC_OK,
                ctx\<lparr>mailbox_size := st_size sb, mtime := st_mtime sb, atime := st_atime sb,
                     readonly := (if readonly ctx then True else \<not> access_w_ok e),
                     hdrs := (if count s > 0 then close_last (int (pos s)) (nlines s) (msgs s)
                              else msgs s),
                     fp := Some (pos s)\<rparr>,
                False))"
  using assms by (simp add: mbox_parse_mailbox_def Let_def)



subsection \<open>The MMDF loop\<close>







subsection \<open>Runs on the sample mailboxes\<close>

lemmas mbox_eval =
  mbox_loop.simps mbox_step_def mbox_start_def fgets_def env_of_def demo_def SigInt_def
  c_str_def mbox_new_message_def demo_read_header_def header_field_def new_header_def
  close_last_def close_message_def count_newlines_def Let_def




lemma mbox1_loop:
  "mailbox_file w = mbox1 \<Longrightarrow> sigint_arrival w = None \<Longrightarrow>
   mbox_loop demo w 82 (mbox_start 0 []) =
     \<lparr>pos = 82, loc = 82,
      msgs = [new_header\<lparr>content_offset := 22, content_length := 14, lines := 3,
                env := ''1\<newline>''\<rparr>,
              new_header\<lparr>offset := 37, hdr_offset := 37, content_offset := 77,
                content_length := 4, lines := 1, index := 1, env := ''2\<newline>''\<rparr>],
      count = 2, nlines = 0, reads = 6\<rparr>"
  by (simp add: mbox_eval mbox1_def)


lemma env_of_sel [simp]:
  "mailbox_file (env_of f a) = f"
  "stat_res (env_of f a) = Some \<lparr>st_size = int (length f), st_mtime = (1, 0), st_atime = (1, 0)\<rparr>"
  "access_w_ok (env_of f a) = True"
  "fopen_ok (env_of f a) = True"
  "lock_ok (env_of f a) = True"
  "sigint_arrival (env_of f a) = a"
  by (simp_all add: env_of_def)

lemma ctx0_sel [simp]:
  "hdrs ctx0 = []" "fp ctx0 = Some 0" "magic ctx0 = MUTT_MBOX" "readonly ctx0 = False"
  "locked ctx0 = False" "mailbox_size ctx0 = 0" "mtime ctx0 = (0, 0)"
  by (simp_all add: ctx0_def)

lemma sample_lengths [simp]: "length mbox1 = 82" "length mbox2 = 48" "length mmdf1 = 68"
  by (simp_all add: mbox1_def mbox2_def mmdf1_def MMDF_SEP_def)










lemma mbox1_parse:
  assumes "mailbox_file w = mbox1" and "sigint_arrival w = None"
    and "stat_res w = Some sb" and "st_size sb = 82" and "fp ctx = Some 0" and "hdrs ctx = []"
  shows "mbox_parse_mailbox demo w ctx =
     (RC_OK,
      ctx\<lparr>mailbox_size := 82, mtime := st_mtime sb, atime := st_atime sb,
          readonly := (if readonly ctx then True else \<not> access_w_ok w),
          hdrs := [new_header\<lparr>content_offset := 22, content_length := 14, lines := 3,
                     env := ''1\<newline>''\<rparr>,
                   new_header\<lparr>offset := 37, hdr_offset := 37, content_offset := 77,
                     content_length := 4, lines := 1, index := 1, env := ''2\<newline>''\<rparr>],
          fp := Some 82\<rparr>, False)"
  using mbox_parse_result [OF assms(3,5), of demo] assms(2,4,6)
  by (simp add: mbox1_loop [OF assms(1,2)] SigInt_def close_last_def close_message_def
      new_header_def Let_def)

section \<open>Properties of locking\<close>

lemma lock_failure:
  "\<not> lock_ok w \<Longrightarrow> mbox_lock_mailbox (lock_ok w) excl retry ctx =
     (if retry \<and> \<not> excl then (RC_OK, ctx\<lparr>readonly := True\<rparr>) else (RC_ERROR, ctx))"
  by (simp add: mbox_lock_mailbox_def)

lemma lock_failure_open:
  "fopen_ok w \<Longrightarrow> \<not> lock_ok w \<Longrightarrow> mbox_mbox_open c w ctx =
     (case parse_mailbox c w (ctx\<lparr>fp := Some 0, readonly := True\<rparr>) of
        (r, ctx2, sg) \<Rightarrow> (r, mbox_unlock_mailbox ctx2, sg))"
  by (simp add: mbox_mbox_open_def mbox_lock_mailbox_def)

lemma lock_failure_append:
  "fopen_ok w \<Longrightarrow> \<not> lock_ok w \<Longrightarrow> fst (mbox_mbox_open_append w ctx) = RC_ERROR"
  by (simp add: mbox_mbox_open_append_def mbox_lock_mailbox_def)

lemma lock_failure_sync:
  "freopen_rw_ok se \<Longrightarrow> \<not> lock_ok w \<Longrightarrow> rc (mbox_mbox_sync c w se hint ctx) = RC_ERROR"
  by (simp add: mbox_mbox_sync_def mbox_lock_mailbox_def bail_def Let_def)

lemma lock_failure_check:
  "\<not> lock_ok w \<Longrightarrow> stat_res w = Some st \<Longrightarrow> mailbox_size ctx < st_size st \<Longrightarrow>
   \<not> locked ctx \<Longrightarrow> fst (mbox_mbox_check c w hint ctx) = MUTT_LOCKED"
  by (simp add: mbox_mbox_check_def mbox_lock_mailbox_def Let_def)

text \<open>
  C8, as the code has it. When \<open>mutt_file_lock\<close> fails, \<open>mbox_lock_mailbox\<close> returns the
  failure, except for a retrying acquisition that is not exclusive: that one marks the
  mailbox read-only and reports success. So opening a mailbox (retrying, shared) goes on
  to parse it read-only, opening for append and syncing (retrying, exclusive) fail, and
  the check of a grown mailbox (not retrying) reports Locked.
\<close>

theorem lock_failure_escalation:
  assumes "fopen_ok w" and "\<not> lock_ok w"
  shows "mbox_lock_mailbox (lock_ok w) excl retry ctx =
           (if retry \<and> \<not> excl then (RC_OK, ctx\<lparr>readonly := True\<rparr>) else (RC_ERROR, ctx)) \<and>
         mbox_mbox_open c w ctx =
           (case parse_mailbox c w (ctx\<lparr>fp := Some 0, readonly := True\<rparr>) of
              (r, ctx2, sg) \<Rightarrow> (r, mbox_unlock_mailbox ctx2, sg)) \<and>
         fst (mbox_mbox_open_append w ctx) = RC_ERROR \<and>
         (freopen_rw_ok se \<longrightarrow> rc (mbox_mbox_sync c w se hint ctx) = RC_ERROR) \<and>
         (\<forall>st. stat_res w = Some st \<and> mailbox_size ctx < st_size st \<and> \<not> locked ctx \<longrightarrow>
               fst (mbox_mbox_check c w hint ctx) = MUTT_LOCKED)"
  using assms lock_failure [of w excl retry ctx] lock_failure_open [of w c ctx]
    lock_failure_append [of w ctx] lock_failure_sync [of se w c hint ctx]
    lock_failure_check [of w _ ctx c hint]
  by blast

theorem lock_failure_escalation_witness:
  "fopen_ok w_nolock \<and> \<not> lock_ok w_nolock \<and>
   mbox_lock_mailbox (lock_ok w_nolock) True True ctx0 = (RC_ERROR, ctx0) \<and>
   fst (mbox_mbox_open_append w_nolock ctx0) = RC_ERROR \<and>
   freopen_rw_ok se0 \<and> rc (mbox_mbox_sync demo w_nolock se0 None ctx0) = RC_ERROR"
proof -
  have a: "fopen_ok w_nolock" "\<not> lock_ok w_nolock" by (simp_all add: w_nolock_def)
  have b: "freopen_rw_ok se0" by (simp add: se0_def)
  from lock_failure_escalation [OF a, of True True ctx0 demo se0 None] a b
  show ?thesis by simp
qed

text \<open>
  The claim as stated fails for the shared, retrying acquisition of \<open>mbox_mbox_open\<close>:
  with a lock that cannot be taken, opening \<open>mbox1\<close> succeeds, read-only, with both
  messages parsed.
\<close>

theorem lock_failure_open_counterexample:
  "\<not> lock_ok w_nolock \<and> fst (mbox_mbox_open demo w_nolock ctx0) = RC_OK \<and>
   readonly (fst (snd (mbox_mbox_open demo w_nolock ctx0))) \<and>
   length (hdrs (fst (snd (mbox_mbox_open demo w_nolock ctx0)))) = 2"
proof -
  have a: "mailbox_file w_nolock = mbox1" "sigint_arrival w_nolock = None"
    "stat_res w_nolock = Some \<lparr>st_size = 82, st_mtime = (1, 0), st_atime = (1, 0)\<rparr>"
    "fopen_ok w_nolock" "\<not> lock_ok w_nolock"
    by (simp_all add: w_nolock_def)
  have p: "parse_mailbox demo w_nolock (ctx0\<lparr>fp := Some 0, readonly := True\<rparr>) =
             mbox_parse_mailbox demo w_nolock (ctx0\<lparr>fp := Some 0, readonly := True\<rparr>)"
    by (simp add: parse_mailbox_def)
  show ?thesis
    using a(5)
    by (simp add: lock_failure_open [OF a(4,5)] p
        mbox1_parse [OF a(1,2,3)] mbox_unlock_mailbox_def)
qed

section \<open>Properties of the integrity check\<close>

text \<open>
  C3. When \<open>stat\<close> succeeds and the size of the file equals the size of the snapshot,
  the check returns 0 and changes nothing but the recorded modification time, which it
  sets to that of the file (so nothing at all when the times are equal too). A second
  check in the same world returns 0 again and leaves the same context: the Header Store
  is never parsed again.
\<close>

theorem check_unchanged:
  assumes "stat_res w = Some st" and "st_size st = mailbox_size ctx"
  shows "fst (mbox_mbox_check c w hint ctx) = RC_OK \<and>
         fst (snd (mbox_mbox_check c w hint ctx)) = ctx\<lparr>mtime := st_mtime st\<rparr> \<and>
         (st_mtime st = mtime ctx \<longrightarrow> fst (snd (mbox_mbox_check c w hint ctx)) = ctx) \<and>
         fst (mbox_mbox_check c w hint (fst (snd (mbox_mbox_check c w hint ctx)))) = RC_OK \<and>
         fst (snd (mbox_mbox_check c w hint (fst (snd (mbox_mbox_check c w hint ctx))))) =
           ctx\<lparr>mtime := st_mtime st\<rparr> \<and>
         hdrs (fst (snd (mbox_mbox_check c w hint (fst (snd (mbox_mbox_check c w hint ctx)))))) =
           hdrs ctx"
proof -
  have one: "\<And>cx. mailbox_size cx = st_size st \<Longrightarrow>
      fst (mbox_mbox_check c w hint cx) = RC_OK \<and>
      fst (snd (mbox_mbox_check c w hint cx)) = cx\<lparr>mtime := st_mtime st\<rparr>"
    using assms(1) by (simp add: mbox_mbox_check_def Let_def)
  have same: "st_mtime st = mtime ctx \<Longrightarrow> ctx\<lparr>mtime := st_mtime st\<rparr> = ctx"
    by simp
  from one [of ctx] one [of "ctx\<lparr>mtime := st_mtime st\<rparr>"] assms(2) same
  show ?thesis by simp
qed

theorem check_unchanged_witness:
  "stat_res (env_of mbox1 None) = Some \<lparr>st_size = 82, st_mtime = (1, 0), st_atime = (1, 0)\<rparr> \<and>
   st_size \<lparr>st_size = 82, st_mtime = (1, 0), st_atime = (1, 0)\<rparr> = mailbox_size ctx_open \<and>
   fst (mbox_mbox_check demo (env_of mbox1 None) None ctx_open) = RC_OK \<and>
   fst (snd (mbox_mbox_check demo (env_of mbox1 None) None ctx_open)) = ctx_open\<lparr>mtime := (1, 0)\<rparr> \<and>
   fst (mbox_mbox_check demo (env_of mbox1 None) None
          (fst (snd (mbox_mbox_check demo (env_of mbox1 None) None ctx_open)))) = RC_OK"
proof -
  have st: "stat_res (env_of mbox1 None) =
              Some \<lparr>st_size = 82, st_mtime = (1, 0), st_atime = (1, 0)\<rparr>" by simp
  have sz: "st_size \<lparr>st_size = 82, st_mtime = (1, 0), st_atime = (1, 0)\<rparr> = mailbox_size ctx_open"
    by (simp add: ctx_open_def)
  have m: "st_mtime \<lparr>st_size = 82, st_mtime = (1, 0), st_atime = (1, 0)\<rparr> = (1, 0)" by simp
  from check_unchanged [OF st sz, of demo None] st sz show ?thesis
    unfolding m by blast
qed

section \<open>Properties of the reconciliation\<close>

subsection \<open>The search for an old record\<close>





lemma mutt_set_flag_eq:
  "mutt_set_flag fl v (h, ch) = (put_flag fl v h, ch \<or> put_flag fl v h \<noteq> h)"
  by (cases fl; cases h) (auto simp: mutt_set_flag_def)


subsection \<open>One step of the flag carry\<close>









subsection \<open>The report\<close>













lemma ctx_two_sel [simp]:
  "magic ctx_two = MUTT_MBOX" "\<not> readonly ctx_two"
  "hdrs ctx_two = [hdr_a\<lparr>flagged := True\<rparr>, hdr_b\<lparr>tagged := True\<rparr>]"
  "mailbox_size ctx_two = 82"
  by (simp_all add: ctx_two_def ctx0_def)



section \<open>Properties of the rewrite\<close>

subsection \<open>The copying loop and the ledger\<close>


lemma copied_update:
  "copied h h' \<Longrightarrow> copied h (h'\<lparr>content_offset := a, content_length := b, lines := n\<rparr>)"
  by (simp add: copied_def)






subsection \<open>The restore loop\<close>





subsection \<open>From the entry of the sync to the rewrite\<close>



subsection \<open>Failures that roll back\<close>



subsection \<open>Failures behind the reopening of the temporary file\<close>





subsection \<open>Runs on the sample store\<close>




lemma upt_0_2: "[0..<2] = [0, 1]"
  by (simp add: upt_conv_Cons numeral_2_eq_2)







subsection \<open>Rollback\<close>




subsection \<open>The temporary file after a late failure\<close>




end
